theory Spec2Isabelle
  imports Main "HOL-Library.Word"
begin

section \<open>The Opus bindings of open-intercom\<close>

text \<open>
  The repository's codec layer is \<^verbatim>\<open>android/app/src/main/jni/opus_jni.c\<close>: eight JNI
  entry points of the Java class \<^verbatim>\<open>OpusCodec\<close>, each a few lines around one call of
  libopus. A handle is the address of the native codec object cast to \<^verbatim>\<open>jlong\<close>; there
  is no table of sessions. libopus itself is an external library: its entry points are
  modelled here by their C interface (\<^verbatim>\<open>opus.h\<close>), with the signal processing left as a
  parameter.
\<close>

subsection \<open>JNI scalar types and arrays\<close>

type_synonym jlong = "64 word"
type_synonym jint = "32 word"
type_synonym jshort = "16 word"
type_synonym jbyte = "8 word"

text \<open>A Java primitive array is the list of its elements; \<^verbatim>\<open>GetArrayLength\<close> is a \<^verbatim>\<open>jsize\<close>.\<close>

definition GetArrayLength :: "'a list \<Rightarrow> jint" where
  "GetArrayLength a = of_nat (length a)"

subsection \<open>The names of \<^verbatim>\<open>opus_defines.h\<close> that the bindings use\<close>

text \<open>
  The header is not part of the repository, so the macros are kept symbolic: the status
  written through \<^verbatim>\<open>int *error\<close> is either \<^verbatim>\<open>OPUS_OK\<close> or one of the error codes, the
  application and signal arguments are the named constants, and a \<^verbatim>\<open>opus_encoder_ctl\<close>
  request is the macro with its argument.
\<close>

datatype opus_error =
    OPUS_BAD_ARG | OPUS_BUFFER_TOO_SMALL | OPUS_INTERNAL_ERROR | OPUS_INVALID_PACKET
  | OPUS_UNIMPLEMENTED | OPUS_INVALID_STATE | OPUS_ALLOC_FAIL

datatype opus_status = OPUS_OK | OPUS_ERROR opus_error

datatype opus_application =
    OPUS_APPLICATION_VOIP | OPUS_APPLICATION_AUDIO | OPUS_APPLICATION_RESTRICTED_LOWDELAY

datatype opus_signal = OPUS_AUTO | OPUS_SIGNAL_VOICE | OPUS_SIGNAL_MUSIC

datatype ctl_request =
    OPUS_SET_VBR jint
  | OPUS_SET_COMPLEXITY jint
  | OPUS_SET_SIGNAL opus_signal
  | OPUS_SET_BITRATE jint

subsection \<open>Native memory\<close>

text \<open>
  A native pointer is an address; \<^verbatim>\<open>NULL\<close> is address 0. The native heap maps the address
  of every live codec object to its state. A call of libopus with a pointer that does not
  designate a live object of the expected kind (a null, freed, never allocated or
  wrong-kind pointer) has undefined behaviour in C, and so has a call that makes libopus
  read or write past the end of an array it was handed; the model makes both the outcome
  \<open>Fault\<close>. Every entry of libopus that returns is appended to \<open>calls\<close>, so that what
  a binding forwards to the native layer can be read off.
\<close>

type_synonym ptr = "64 word"

definition NULL :: ptr where
  "NULL = 0"

datatype ('e, 'd) native_obj = OpusEncoder 'e | OpusDecoder 'd

datatype native_call =
    Call_opus_encoder_create jint jint opus_application
  | Call_opus_decoder_create jint jint
  | Call_opus_encoder_ctl ptr ctl_request
  | Call_opus_encode ptr "jshort list" jint jint
  | Call_opus_decode ptr "jbyte list" jint jint jint
  | Call_opus_encoder_destroy ptr
  | Call_opus_decoder_destroy ptr

record ('e, 'd) world =
  heap :: "ptr \<Rightarrow> ('e, 'd) native_obj option"
  calls :: "native_call list"

datatype ('r, 'w) outcome = Fault | Returns (retval: 'r) (after: 'w)

definition then_do :: "('a, 'w) outcome \<Rightarrow> ('a \<Rightarrow> 'w \<Rightarrow> ('b, 'w) outcome) \<Rightarrow> ('b, 'w) outcome" where
  "then_do m f = (case m of Fault \<Rightarrow> Fault | Returns x w \<Rightarrow> f x w)"

definition returns :: "('r, 'w) outcome \<Rightarrow> bool" where
  "returns m = (case m of Fault \<Rightarrow> False | Returns x w \<Rightarrow> True)"

definition live_encoder :: "('e, 'd) world \<Rightarrow> ptr \<Rightarrow> bool" where
  "live_encoder w p = (case heap w p of Some (OpusEncoder e) \<Rightarrow> True | _ \<Rightarrow> False)"

definition live_decoder :: "('e, 'd) world \<Rightarrow> ptr \<Rightarrow> bool" where
  "live_decoder w p = (case heap w p of Some (OpusDecoder d) \<Rightarrow> True | _ \<Rightarrow> False)"

definition logged :: "native_call \<Rightarrow> ('e, 'd) world \<Rightarrow> ('e, 'd) world" where
  "logged c w = w\<lparr>calls := calls w @ [c]\<rparr>"

subsection \<open>libopus, by its interface\<close>

text \<open>
  What libopus computes is a parameter: how it picks a block of memory, whether it accepts
  the arguments of a creation and with which initial state, what a control request does to
  an encoder, and what one encode or decode step does. An encode step reads
  \<open>encode_reads\<close> samples from the start of \<^verbatim>\<open>pcm\<close> (libopus is told the frame size
  and knows the channel count, never the length of the array) and yields the C return
  value, the packet and the codec's next state. A decode step yields the C return value,
  the samples it stores from the start of \<^verbatim>\<open>pcm\<close> and the codec's next state. The C
  return value is a count, or a negative error code.
\<close>

record ('e, 'd) libopus =
  opus_alloc :: "(ptr \<Rightarrow> ('e, 'd) native_obj option) \<Rightarrow> ptr option"
  encoder_init :: "jint \<Rightarrow> jint \<Rightarrow> opus_application \<Rightarrow> opus_error + 'e"
  decoder_init :: "jint \<Rightarrow> jint \<Rightarrow> opus_error + 'd"
  encoder_ctl :: "'e \<Rightarrow> ctl_request \<Rightarrow> opus_status \<times> 'e"
  encode_reads :: "'e \<Rightarrow> jint \<Rightarrow> jint \<Rightarrow> nat"
  encode_frame :: "'e \<Rightarrow> jshort list \<Rightarrow> jint \<Rightarrow> jbyte list \<Rightarrow> jint \<Rightarrow> jint \<times> jbyte list \<times> 'e"
  decode_frame :: "'d \<Rightarrow> jbyte list \<Rightarrow> jint \<Rightarrow> jint \<Rightarrow> jint \<Rightarrow> jint \<times> jshort list \<times> 'd"

text \<open>
  \<^verbatim>\<open>malloc\<close> returns \<^verbatim>\<open>NULL\<close> or a block that is not null and overlaps no live block: a
  choice of the parameter that is neither counts as a failed allocation.
\<close>

definition opus_malloc :: "('e, 'd) libopus \<Rightarrow> (ptr \<Rightarrow> ('e, 'd) native_obj option) \<Rightarrow> ptr option" where
  "opus_malloc L h =
     (case opus_alloc L h of
        None \<Rightarrow> None
      | Some p \<Rightarrow> if p \<noteq> NULL \<and> h p = None then Some p else None)"

text \<open>
  \<^verbatim>\<open>OpusEncoder *opus_encoder_create(opus_int32 Fs, int channels, int application, int *error)\<close>:
  the result is the pointer and the status stored through \<^verbatim>\<open>error\<close>; on failure the pointer
  is \<^verbatim>\<open>NULL\<close> and nothing stays allocated.
\<close>

definition opus_encoder_create ::
  "('e, 'd) libopus \<Rightarrow> ('e, 'd) world \<Rightarrow> jint \<Rightarrow> jint \<Rightarrow> opus_application
     \<Rightarrow> (ptr \<times> opus_status) \<times> ('e, 'd) world" where
  "opus_encoder_create L w Fs channels application =
     (let w1 = logged (Call_opus_encoder_create Fs channels application) w in
      case encoder_init L Fs channels application of
        Inl err \<Rightarrow> ((NULL, OPUS_ERROR err), w1)
      | Inr st \<Rightarrow>
          (case opus_malloc L (heap w1) of
             None \<Rightarrow> ((NULL, OPUS_ERROR OPUS_ALLOC_FAIL), w1)
           | Some p \<Rightarrow> ((p, OPUS_OK), w1\<lparr>heap := (heap w1)(p \<mapsto> OpusEncoder st)\<rparr>)))"

definition opus_decoder_create ::
  "('e, 'd) libopus \<Rightarrow> ('e, 'd) world \<Rightarrow> jint \<Rightarrow> jint
     \<Rightarrow> (ptr \<times> opus_status) \<times> ('e, 'd) world" where
  "opus_decoder_create L w Fs channels =
     (let w1 = logged (Call_opus_decoder_create Fs channels) w in
      case decoder_init L Fs channels of
        Inl err \<Rightarrow> ((NULL, OPUS_ERROR err), w1)
      | Inr st \<Rightarrow>
          (case opus_malloc L (heap w1) of
             None \<Rightarrow> ((NULL, OPUS_ERROR OPUS_ALLOC_FAIL), w1)
           | Some p \<Rightarrow> ((p, OPUS_OK), w1\<lparr>heap := (heap w1)(p \<mapsto> OpusDecoder st)\<rparr>)))"

text \<open>\<^verbatim>\<open>int opus_encoder_ctl(OpusEncoder *st, int request, ...)\<close>\<close>

definition opus_encoder_ctl ::
  "('e, 'd) libopus \<Rightarrow> ('e, 'd) world \<Rightarrow> ptr \<Rightarrow> ctl_request \<Rightarrow> (opus_status, ('e, 'd) world) outcome" where
  "opus_encoder_ctl L w st request =
     (case heap w st of
        Some (OpusEncoder e) \<Rightarrow>
          (case encoder_ctl L e request of
             (ret, e') \<Rightarrow>
               Returns ret (logged (Call_opus_encoder_ctl st request)
                              (w\<lparr>heap := (heap w)(st \<mapsto> OpusEncoder e')\<rparr>)))
      | _ \<Rightarrow> Fault)"

text \<open>
  \<^verbatim>\<open>opus_int32 opus_encode(OpusEncoder *st, const opus_int16 *pcm, int frame_size,
  unsigned char *data, opus_int32 max_data_bytes)\<close>: the result is the C return value and
  the contents of \<^verbatim>\<open>data\<close> after the call. libopus reads the samples of the frame from
  \<^verbatim>\<open>pcm\<close>, a fault when the array holds fewer, and stores no more than
  \<^verbatim>\<open>max_data_bytes\<close> bytes of the packet into \<^verbatim>\<open>data\<close>, a fault when the array is
  shorter than what is stored.
\<close>

definition opus_encode ::
  "('e, 'd) libopus \<Rightarrow> ('e, 'd) world \<Rightarrow> ptr \<Rightarrow> jshort list \<Rightarrow> jint \<Rightarrow> jbyte list \<Rightarrow> jint
     \<Rightarrow> (jint \<times> jbyte list, ('e, 'd) world) outcome" where
  "opus_encode L w st pcm frame_size data max_data_bytes =
     (case heap w st of
        Some (OpusEncoder e) \<Rightarrow>
          if length pcm < encode_reads L e frame_size max_data_bytes then Fault
          else
            (case encode_frame L e (take (encode_reads L e frame_size max_data_bytes) pcm)
                    frame_size data max_data_bytes of
               (len, packet, e') \<Rightarrow>
                 if length data < length (take (nat (sint max_data_bytes)) packet) then Fault
                 else
                   Returns (len, take (nat (sint max_data_bytes)) packet
                                   @ drop (length (take (nat (sint max_data_bytes)) packet)) data)
                     (logged (Call_opus_encode st pcm frame_size max_data_bytes)
                        (w\<lparr>heap := (heap w)(st \<mapsto> OpusEncoder e')\<rparr>)))
      | _ \<Rightarrow> Fault)"

text \<open>
  \<^verbatim>\<open>int opus_decode(OpusDecoder *st, const unsigned char *data, opus_int32 len,
  opus_int16 *pcm, int frame_size, int decode_fec)\<close>: the result is the C return value and
  the contents of \<^verbatim>\<open>pcm\<close> after the call. libopus stores the decoded samples from the
  start of \<^verbatim>\<open>pcm\<close>, a fault when the array holds fewer samples than are stored.
\<close>

definition opus_decode ::
  "('e, 'd) libopus \<Rightarrow> ('e, 'd) world \<Rightarrow> ptr \<Rightarrow> jbyte list \<Rightarrow> jint \<Rightarrow> jshort list \<Rightarrow> jint \<Rightarrow> jint
     \<Rightarrow> (jint \<times> jshort list, ('e, 'd) world) outcome" where
  "opus_decode L w st data len pcm frame_size decode_fec =
     (case heap w st of
        Some (OpusDecoder d) \<Rightarrow>
          (case decode_frame L d data len frame_size decode_fec of
             (samples, stored, d') \<Rightarrow>
               if length pcm < length stored then Fault
               else
                 Returns (samples, stored @ drop (length stored) pcm)
                   (logged (Call_opus_decode st data len frame_size decode_fec)
                      (w\<lparr>heap := (heap w)(st \<mapsto> OpusDecoder d')\<rparr>)))
      | _ \<Rightarrow> Fault)"

text \<open>
  \<^verbatim>\<open>void opus_encoder_destroy(OpusEncoder *st)\<close> frees an encoder that
  \<^verbatim>\<open>opus_encoder_create\<close> allocated; \<^verbatim>\<open>opus_decoder_destroy\<close> likewise for a decoder.
\<close>

definition opus_encoder_destroy ::
  "('e, 'd) world \<Rightarrow> ptr \<Rightarrow> (unit, ('e, 'd) world) outcome" where
  "opus_encoder_destroy w st =
     (case heap w st of
        Some (OpusEncoder e) \<Rightarrow>
          Returns () (logged (Call_opus_encoder_destroy st) (w\<lparr>heap := (heap w)(st := None)\<rparr>))
      | _ \<Rightarrow> Fault)"

definition opus_decoder_destroy ::
  "('e, 'd) world \<Rightarrow> ptr \<Rightarrow> (unit, ('e, 'd) world) outcome" where
  "opus_decoder_destroy w st =
     (case heap w st of
        Some (OpusDecoder d) \<Rightarrow>
          Returns () (logged (Call_opus_decoder_destroy st) (w\<lparr>heap := (heap w)(st := None)\<rparr>))
      | _ \<Rightarrow> Fault)"

subsection \<open>The JNI entry points of \<^verbatim>\<open>opus_jni.c\<close>\<close>

text \<open>
  \<^verbatim>\<open>(jlong)encoder\<close> and \<^verbatim>\<open>(OpusEncoder *)encoderPtr\<close> are the identity on addresses.
  \<^verbatim>\<open>Get...ArrayElements\<close> hands the native code the array's elements and
  \<^verbatim>\<open>Release...ArrayElements\<close> with mode 0 copies them back, so an entry point returns the
  array the native code wrote to together with its \<^verbatim>\<open>jint\<close>. The only array length an
  entry point reads is that of \<^verbatim>\<open>opus\<close>; the length of \<^verbatim>\<open>pcm\<close> is never looked at.
\<close>

definition Java_com_openintercommobile_OpusCodec_createEncoder ::
  "('e, 'd) libopus \<Rightarrow> ('e, 'd) world \<Rightarrow> jint \<Rightarrow> jint \<Rightarrow> (jlong, ('e, 'd) world) outcome" where
  "Java_com_openintercommobile_OpusCodec_createEncoder L w sampleRate channels =
     (case opus_encoder_create L w sampleRate channels OPUS_APPLICATION_VOIP of
        ((encoder, error), w0) \<Rightarrow>
          if error \<noteq> OPUS_OK then Returns 0 w0
          else
            then_do (opus_encoder_ctl L w0 encoder (OPUS_SET_VBR 1)) (\<lambda>_ w1.
            then_do (opus_encoder_ctl L w1 encoder (OPUS_SET_COMPLEXITY 10)) (\<lambda>_ w2.
            then_do (opus_encoder_ctl L w2 encoder (OPUS_SET_SIGNAL OPUS_SIGNAL_VOICE)) (\<lambda>_ w3.
            Returns encoder w3))))"

definition Java_com_openintercommobile_OpusCodec_createDecoder ::
  "('e, 'd) libopus \<Rightarrow> ('e, 'd) world \<Rightarrow> jint \<Rightarrow> jint \<Rightarrow> (jlong, ('e, 'd) world) outcome" where
  "Java_com_openintercommobile_OpusCodec_createDecoder L w sampleRate channels =
     (case opus_decoder_create L w sampleRate channels of
        ((decoder, error), w0) \<Rightarrow>
          if error \<noteq> OPUS_OK then Returns 0 w0 else Returns decoder w0)"

definition Java_com_openintercommobile_OpusCodec_encode ::
  "('e, 'd) libopus \<Rightarrow> ('e, 'd) world \<Rightarrow> jlong \<Rightarrow> jshort list \<Rightarrow> jint \<Rightarrow> jbyte list
     \<Rightarrow> (jint \<times> jbyte list, ('e, 'd) world) outcome" where
  "Java_com_openintercommobile_OpusCodec_encode L w encoderPtr pcm frameSize opus =
     (let encoder = encoderPtr;
          opusLen = GetArrayLength opus
      in then_do (opus_encode L w encoder pcm frameSize opus opusLen) (\<lambda>(len, opusData) w1.
           Returns (len, opusData) w1))"

definition Java_com_openintercommobile_OpusCodec_decode ::
  "('e, 'd) libopus \<Rightarrow> ('e, 'd) world \<Rightarrow> jlong \<Rightarrow> jbyte list \<Rightarrow> jshort list \<Rightarrow> jint
     \<Rightarrow> (jint \<times> jshort list, ('e, 'd) world) outcome" where
  "Java_com_openintercommobile_OpusCodec_decode L w decoderPtr opus pcm frameSize =
     (let decoder = decoderPtr;
          opusLen = GetArrayLength opus
      in then_do (opus_decode L w decoder opus opusLen pcm frameSize 0) (\<lambda>(samples, pcmData) w1.
           Returns (samples, pcmData) w1))"

definition Java_com_openintercommobile_OpusCodec_destroyEncoder ::
  "('e, 'd) world \<Rightarrow> jlong \<Rightarrow> (unit, ('e, 'd) world) outcome" where
  "Java_com_openintercommobile_OpusCodec_destroyEncoder w encoderPtr =
     (let encoder = encoderPtr
      in if encoder \<noteq> NULL then opus_encoder_destroy w encoder else Returns () w)"

definition Java_com_openintercommobile_OpusCodec_destroyDecoder ::
  "('e, 'd) world \<Rightarrow> jlong \<Rightarrow> (unit, ('e, 'd) world) outcome" where
  "Java_com_openintercommobile_OpusCodec_destroyDecoder w decoderPtr =
     (let decoder = decoderPtr
      in if decoder \<noteq> NULL then opus_decoder_destroy w decoder else Returns () w)"

definition Java_com_openintercommobile_OpusCodec_setBitrate ::
  "('e, 'd) libopus \<Rightarrow> ('e, 'd) world \<Rightarrow> jlong \<Rightarrow> jint \<Rightarrow> (unit, ('e, 'd) world) outcome" where
  "Java_com_openintercommobile_OpusCodec_setBitrate L w encoderPtr bitrate =
     (let encoder = encoderPtr
      in if encoder \<noteq> NULL
         then then_do (opus_encoder_ctl L w encoder (OPUS_SET_BITRATE bitrate)) (\<lambda>_ w1. Returns () w1)
         else Returns () w)"

text \<open>The Java-side names of the entry points.\<close>

abbreviation "createEncoder \<equiv> Java_com_openintercommobile_OpusCodec_createEncoder"
abbreviation "createDecoder \<equiv> Java_com_openintercommobile_OpusCodec_createDecoder"
abbreviation "encode \<equiv> Java_com_openintercommobile_OpusCodec_encode"
abbreviation "decode \<equiv> Java_com_openintercommobile_OpusCodec_decode"
abbreviation "destroyEncoder \<equiv> Java_com_openintercommobile_OpusCodec_destroyEncoder"
abbreviation "destroyDecoder \<equiv> Java_com_openintercommobile_OpusCodec_destroyDecoder"
abbreviation "setBitrate \<equiv> Java_com_openintercommobile_OpusCodec_setBitrate"

subsection \<open>The caller-visible convention of the specification\<close>

text \<open>
  The specification names the failures (\<open>ErrorKind\<close>) and fixes how a caller reads the
  \<^verbatim>\<open>jint\<close> of an encode or decode: a negative value is the failure, any other value is
  the count. These two readings follow the specification's words; the entry points above
  follow the code.
\<close>

datatype ErrorKind = InitFailed | InvalidHandle | InvalidParameter | EncodeFailed | DecodeFailed

definition encode_result :: "jint \<Rightarrow> ErrorKind + nat" where
  "encode_result r = (if sint r < 0 then Inl EncodeFailed else Inr (nat (sint r)))"

definition decode_result :: "jint \<Rightarrow> ErrorKind + nat" where
  "decode_result r = (if sint r < 0 then Inl DecodeFailed else Inr (nat (sint r)))"

text \<open>
  libopus promises that a byte count returned by \<^verbatim>\<open>opus_encode\<close> is at most
  \<^verbatim>\<open>max_data_bytes\<close>.
\<close>

definition respects_capacity :: "('e, 'd) libopus \<Rightarrow> bool" where
  "respects_capacity L \<longleftrightarrow>
     (\<forall>e pcm frame_size data max_data_bytes.
        0 \<le> sint (fst (encode_frame L e pcm frame_size data max_data_bytes)) \<longrightarrow>
        sint (fst (encode_frame L e pcm frame_size data max_data_bytes)) \<le> sint max_data_bytes)"

subsection \<open>A small codec to run the entry points on\<close>

text \<open>
  A deterministic stand-in for libopus with the interface's documented conventions:
  creation accepts the sampling rates and channel counts of Opus, a control request stores
  its argument, an encode or decode step checks that the frame lasts 2.5, 5, 10, 20, 40 or
  60 ms at the sampling rate and returns \<open>- 1\<close> (\<^verbatim>\<open>OPUS_BAD_ARG\<close>) or a count (bytes
  written, at most the capacity; decoded samples per channel). A step with a valid frame
  reads or stores \<open>frame_size * channels\<close> samples, a refused one none. Memory is four
  blocks.
\<close>

record test_encoder =
  enc_Fs :: jint
  enc_channels :: jint
  use_vbr :: jint
  complexity :: jint
  signal_type :: opus_signal
  bitrate_bps :: jint
  enc_frames :: nat

record test_decoder =
  dec_Fs :: jint
  dec_channels :: jint
  dec_frames :: nat

definition valid_rate :: "jint \<Rightarrow> jint \<Rightarrow> bool" where
  "valid_rate Fs channels \<longleftrightarrow>
     (Fs = 8000 \<or> Fs = 12000 \<or> Fs = 16000 \<or> Fs = 24000 \<or> Fs = 48000) \<and>
     (channels = 1 \<or> channels = 2)"

definition valid_frame :: "jint \<Rightarrow> jint \<Rightarrow> bool" where
  "valid_frame Fs frame_size \<longleftrightarrow>
     400 * sint frame_size \<in> set (map (\<lambda>k. k * sint Fs) [1, 2, 4, 8, 16, 24])"

definition test_alloc :: "(ptr \<Rightarrow> (test_encoder, test_decoder) native_obj option) \<Rightarrow> ptr option" where
  "test_alloc h = find (\<lambda>p. h p = None) [0x1000, 0x2000, 0x3000, 0x4000]"

definition test_encoder_init :: "jint \<Rightarrow> jint \<Rightarrow> opus_application \<Rightarrow> opus_error + test_encoder" where
  "test_encoder_init Fs channels application =
     (if valid_rate Fs channels
      then Inr \<lparr>enc_Fs = Fs, enc_channels = channels, use_vbr = 0, complexity = 0,
                signal_type = OPUS_AUTO, bitrate_bps = 0, enc_frames = 0\<rparr>
      else Inl OPUS_BAD_ARG)"

definition test_decoder_init :: "jint \<Rightarrow> jint \<Rightarrow> opus_error + test_decoder" where
  "test_decoder_init Fs channels =
     (if valid_rate Fs channels
      then Inr \<lparr>dec_Fs = Fs, dec_channels = channels, dec_frames = 0\<rparr>
      else Inl OPUS_BAD_ARG)"

fun test_encoder_ctl :: "test_encoder \<Rightarrow> ctl_request \<Rightarrow> opus_status \<times> test_encoder" where
  "test_encoder_ctl e (OPUS_SET_VBR x) = (OPUS_OK, e\<lparr>use_vbr := x\<rparr>)"
| "test_encoder_ctl e (OPUS_SET_COMPLEXITY x) =
     (if 0 \<le> sint x \<and> sint x \<le> 10 then (OPUS_OK, e\<lparr>complexity := x\<rparr>)
      else (OPUS_ERROR OPUS_BAD_ARG, e))"
| "test_encoder_ctl e (OPUS_SET_SIGNAL s) = (OPUS_OK, e\<lparr>signal_type := s\<rparr>)"
| "test_encoder_ctl e (OPUS_SET_BITRATE b) =
     (if sint b \<le> 0 then (OPUS_ERROR OPUS_BAD_ARG, e) else (OPUS_OK, e\<lparr>bitrate_bps := b\<rparr>))"

definition test_encode_reads :: "test_encoder \<Rightarrow> jint \<Rightarrow> jint \<Rightarrow> nat" where
  "test_encode_reads e frame_size max_data_bytes =
     (if valid_frame (enc_Fs e) frame_size then nat (sint frame_size * sint (enc_channels e))
      else 0)"

definition test_encode_frame ::
  "test_encoder \<Rightarrow> jshort list \<Rightarrow> jint \<Rightarrow> jbyte list \<Rightarrow> jint \<Rightarrow> jint \<times> jbyte list \<times> test_encoder" where
  "test_encode_frame e pcm frame_size data max_data_bytes =
     (if sint max_data_bytes \<le> 0 \<or> \<not> valid_frame (enc_Fs e) frame_size then (- 1, [], e)
      else if sint max_data_bytes < 3
      then (max_data_bytes, replicate (nat (sint max_data_bytes)) 0,
            e\<lparr>enc_frames := Suc (enc_frames e)\<rparr>)
      else (3, replicate 3 0, e\<lparr>enc_frames := Suc (enc_frames e)\<rparr>))"

definition test_decode_frame ::
  "test_decoder \<Rightarrow> jbyte list \<Rightarrow> jint \<Rightarrow> jint \<Rightarrow> jint \<Rightarrow> jint \<times> jshort list \<times> test_decoder" where
  "test_decode_frame d data len frame_size decode_fec =
     (if \<not> valid_frame (dec_Fs d) frame_size then (- 1, [], d)
      else (frame_size, replicate (nat (sint frame_size * sint (dec_channels d))) 0,
            d\<lparr>dec_frames := Suc (dec_frames d)\<rparr>))"

definition test_opus :: "(test_encoder, test_decoder) libopus" where
  "test_opus =
     \<lparr>opus_alloc = test_alloc, encoder_init = test_encoder_init, decoder_init = test_decoder_init,
      encoder_ctl = test_encoder_ctl, encode_reads = test_encode_reads,
      encode_frame = test_encode_frame, decode_frame = test_decode_frame\<rparr>"

text \<open>The process before any codec exists, and the worlds and handles of the runs below.\<close>

definition boot :: "(test_encoder, test_decoder) world" where
  "boot = \<lparr>heap = (\<lambda>p. None), calls = []\<rparr>"

definition mono_world :: "(test_encoder, test_decoder) world" where
  "mono_world = after (createEncoder test_opus boot 48000 1)"

definition mono_encoder :: jlong where
  "mono_encoder = retval (createEncoder test_opus boot 48000 1)"

definition stereo_world :: "(test_encoder, test_decoder) world" where
  "stereo_world = after (createDecoder test_opus boot 48000 2)"

definition stereo_decoder :: jlong where
  "stereo_decoder = retval (createDecoder test_opus boot 48000 2)"

definition duo_world :: "(test_encoder, test_decoder) world" where
  "duo_world = after (createDecoder test_opus mono_world 48000 2)"

text \<open>The buffers of the runs.\<close>

definition long_pcm :: "jshort list" where
  "long_pcm = replicate 1920 0"

definition stereo_pcm :: "jshort list" where
  "stereo_pcm = replicate 1920 0"

definition packet_buffer :: "jbyte list" where
  "packet_buffer = replicate 100 0"

definition short_pcm :: "jshort list" where
  "short_pcm = replicate 480 0"

section \<open>What each entry point does\<close>

lemmas test_defs = test_opus_def test_alloc_def test_encoder_init_def test_decoder_init_def
  test_encode_reads_def test_encode_frame_def test_decode_frame_def valid_rate_def valid_frame_def boot_def

lemmas api_defs = opus_encoder_create_def opus_decoder_create_def opus_encoder_ctl_def
  opus_encode_def opus_decode_def opus_encoder_destroy_def opus_decoder_destroy_def
  opus_malloc_def logged_def then_do_def NULL_def GetArrayLength_def

lemmas jni_defs = Java_com_openintercommobile_OpusCodec_createEncoder_def
  Java_com_openintercommobile_OpusCodec_createDecoder_def
  Java_com_openintercommobile_OpusCodec_encode_def
  Java_com_openintercommobile_OpusCodec_decode_def
  Java_com_openintercommobile_OpusCodec_destroyEncoder_def
  Java_com_openintercommobile_OpusCodec_destroyDecoder_def
  Java_com_openintercommobile_OpusCodec_setBitrate_def

lemma GetArrayLength_le: "nat (sint (GetArrayLength a)) \<le> length a"
proof -
  have "signed_take_bit 31 (int (length a)) \<le> int (length a)"
    by (simp add: signed_take_bit_int_less_eq_self_iff)
  then show ?thesis
    by (simp add: GetArrayLength_def signed_of_nat nat_le_iff)
qed

lemma stored_packet_fits:
  "length (take (nat (sint (GetArrayLength opus))) packet) \<le> length opus"
  using GetArrayLength_le [of opus] by simp

lemma encode_on_live_encoder:
  assumes "heap w p = Some (OpusEncoder e)"
    and "encode_reads L e frameSize (GetArrayLength opus) \<le> length pcm"
  shows "encode L w p pcm frameSize opus =
           Returns
             (fst (encode_frame L e (take (encode_reads L e frameSize (GetArrayLength opus)) pcm)
                     frameSize opus (GetArrayLength opus)),
              take (nat (sint (GetArrayLength opus)))
                  (fst (snd (encode_frame L e
                     (take (encode_reads L e frameSize (GetArrayLength opus)) pcm)
                     frameSize opus (GetArrayLength opus))))
                @ drop (length (take (nat (sint (GetArrayLength opus)))
                  (fst (snd (encode_frame L e
                     (take (encode_reads L e frameSize (GetArrayLength opus)) pcm)
                     frameSize opus (GetArrayLength opus)))))) opus)
             (logged (Call_opus_encode p pcm frameSize (GetArrayLength opus))
                (w\<lparr>heap := (heap w)(p \<mapsto> OpusEncoder
                    (snd (snd (encode_frame L e
                       (take (encode_reads L e frameSize (GetArrayLength opus)) pcm)
                       frameSize opus (GetArrayLength opus)))))\<rparr>))"
proof -
  have "\<not> length opus < length (take (nat (sint (GetArrayLength opus)))
      (fst (snd (encode_frame L e (take (encode_reads L e frameSize (GetArrayLength opus)) pcm)
         frameSize opus (GetArrayLength opus)))))"
    using stored_packet_fits [of opus] by (simp only: not_less)
  with assms show ?thesis
    by (simp add: Java_com_openintercommobile_OpusCodec_encode_def opus_encode_def then_do_def
          Let_def case_prod_beta del: length_take)
qed

lemma encode_reads_past_pcm:
  assumes "heap w p = Some (OpusEncoder e)"
    and "length pcm < encode_reads L e frameSize (GetArrayLength opus)"
  shows "encode L w p pcm frameSize opus = Fault"
  using assms
  by (simp add: Java_com_openintercommobile_OpusCodec_encode_def opus_encode_def then_do_def
        Let_def)

lemma encode_without_live_encoder:
  "\<not> live_encoder w p \<Longrightarrow> encode L w p pcm frameSize opus = Fault"
  by (simp add: Java_com_openintercommobile_OpusCodec_encode_def opus_encode_def then_do_def
        Let_def live_encoder_def split: option.splits native_obj.splits)

lemma decode_on_live_decoder:
  assumes "heap w p = Some (OpusDecoder d)"
    and "length (fst (snd (decode_frame L d opus (GetArrayLength opus) frameSize 0))) \<le> length pcm"
  shows "decode L w p opus pcm frameSize =
           Returns
             (fst (decode_frame L d opus (GetArrayLength opus) frameSize 0),
              fst (snd (decode_frame L d opus (GetArrayLength opus) frameSize 0))
                @ drop (length (fst (snd (decode_frame L d opus (GetArrayLength opus) frameSize 0))))
                    pcm)
             (logged (Call_opus_decode p opus (GetArrayLength opus) frameSize 0)
                (w\<lparr>heap := (heap w)(p \<mapsto> OpusDecoder
                    (snd (snd (decode_frame L d opus (GetArrayLength opus) frameSize 0))))\<rparr>))"
  using assms
  by (simp add: Java_com_openintercommobile_OpusCodec_decode_def opus_decode_def then_do_def
        Let_def case_prod_beta)


lemma decode_without_live_decoder:
  "\<not> live_decoder w p \<Longrightarrow> decode L w p opus pcm frameSize = Fault"
  by (simp add: Java_com_openintercommobile_OpusCodec_decode_def opus_decode_def then_do_def
        Let_def live_decoder_def split: option.splits native_obj.splits)

lemma setBitrate_null: "setBitrate L w NULL bitrate = Returns () w"
  by (simp add: Java_com_openintercommobile_OpusCodec_setBitrate_def)

lemma setBitrate_on_live_encoder:
  assumes "p \<noteq> NULL" and "heap w p = Some (OpusEncoder e)"
  shows "setBitrate L w p bitrate =
           Returns ()
             (logged (Call_opus_encoder_ctl p (OPUS_SET_BITRATE bitrate))
                (w\<lparr>heap := (heap w)(p \<mapsto>
                    OpusEncoder (snd (encoder_ctl L e (OPUS_SET_BITRATE bitrate))))\<rparr>))"
  using assms
  by (simp add: Java_com_openintercommobile_OpusCodec_setBitrate_def opus_encoder_ctl_def
        then_do_def Let_def case_prod_beta)

lemma setBitrate_without_live_encoder:
  "p \<noteq> NULL \<Longrightarrow> \<not> live_encoder w p \<Longrightarrow> setBitrate L w p bitrate = Fault"
  by (simp add: Java_com_openintercommobile_OpusCodec_setBitrate_def opus_encoder_ctl_def
        then_do_def live_encoder_def split: option.splits native_obj.splits)

lemma destroyEncoder_null: "destroyEncoder w NULL = Returns () w"
  by (simp add: Java_com_openintercommobile_OpusCodec_destroyEncoder_def)

lemma destroyDecoder_null: "destroyDecoder w NULL = Returns () w"
  by (simp add: Java_com_openintercommobile_OpusCodec_destroyDecoder_def)

lemma destroyEncoder_on_live_encoder:
  "p \<noteq> NULL \<Longrightarrow> live_encoder w p \<Longrightarrow>
     destroyEncoder w p =
       Returns () (logged (Call_opus_encoder_destroy p) (w\<lparr>heap := (heap w)(p := None)\<rparr>))"
  by (simp add: Java_com_openintercommobile_OpusCodec_destroyEncoder_def opus_encoder_destroy_def
        live_encoder_def split: option.splits native_obj.splits)

lemma destroyDecoder_on_live_decoder:
  "p \<noteq> NULL \<Longrightarrow> live_decoder w p \<Longrightarrow>
     destroyDecoder w p =
       Returns () (logged (Call_opus_decoder_destroy p) (w\<lparr>heap := (heap w)(p := None)\<rparr>))"
  by (simp add: Java_com_openintercommobile_OpusCodec_destroyDecoder_def opus_decoder_destroy_def
        live_decoder_def split: option.splits native_obj.splits)

lemma destroyEncoder_without_live_encoder:
  "p \<noteq> NULL \<Longrightarrow> \<not> live_encoder w p \<Longrightarrow> destroyEncoder w p = Fault"
  by (simp add: Java_com_openintercommobile_OpusCodec_destroyEncoder_def opus_encoder_destroy_def
        live_encoder_def split: option.splits native_obj.splits)

lemma destroyDecoder_without_live_decoder:
  "p \<noteq> NULL \<Longrightarrow> \<not> live_decoder w p \<Longrightarrow> destroyDecoder w p = Fault"
  by (simp add: Java_com_openintercommobile_OpusCodec_destroyDecoder_def opus_decoder_destroy_def
        live_decoder_def split: option.splits native_obj.splits)

lemma heap_logged: "heap (logged c w) = heap w"
  by (simp add: logged_def)

lemma calls_logged: "calls (logged c w) = calls w @ [c]"
  by (simp add: logged_def)

subsection \<open>The runs on the small codec, evaluated\<close>

lemma mono_run:
  "createEncoder test_opus boot 48000 1 =
     Returns 0x1000
       \<lparr>heap = (\<lambda>p. None)(0x1000 \<mapsto> OpusEncoder
                  \<lparr>enc_Fs = 48000, enc_channels = 1, use_vbr = 1, complexity = 10,
                   signal_type = OPUS_SIGNAL_VOICE, bitrate_bps = 0, enc_frames = 0\<rparr>),
        calls = [Call_opus_encoder_create 48000 1 OPUS_APPLICATION_VOIP,
                 Call_opus_encoder_ctl 0x1000 (OPUS_SET_VBR 1),
                 Call_opus_encoder_ctl 0x1000 (OPUS_SET_COMPLEXITY 10),
                 Call_opus_encoder_ctl 0x1000 (OPUS_SET_SIGNAL OPUS_SIGNAL_VOICE)]\<rparr>"
  by (simp add: jni_defs api_defs test_defs)

lemma mono_encoder_eq: "mono_encoder = 0x1000"
  by (simp add: mono_encoder_def mono_run)

lemma heap_mono_world:
  "heap mono_world = (\<lambda>p. None)(0x1000 \<mapsto> OpusEncoder
      \<lparr>enc_Fs = 48000, enc_channels = 1, use_vbr = 1, complexity = 10,
       signal_type = OPUS_SIGNAL_VOICE, bitrate_bps = 0, enc_frames = 0\<rparr>)"
  by (simp add: mono_world_def mono_run)

lemma stereo_run:
  "createDecoder test_opus boot 48000 2 =
     Returns 0x1000
       \<lparr>heap = (\<lambda>p. None)(0x1000 \<mapsto> OpusDecoder \<lparr>dec_Fs = 48000, dec_channels = 2, dec_frames = 0\<rparr>),
        calls = [Call_opus_decoder_create 48000 2]\<rparr>"
  by (simp add: jni_defs api_defs test_defs)

lemma stereo_decoder_eq: "stereo_decoder = 0x1000"
  by (simp add: stereo_decoder_def stereo_run)

lemma heap_stereo_world:
  "heap stereo_world = (\<lambda>p. None)(0x1000 \<mapsto> OpusDecoder \<lparr>dec_Fs = 48000, dec_channels = 2, dec_frames = 0\<rparr>)"
  by (simp add: stereo_world_def stereo_run)

lemma heap_duo_world:
  "heap duo_world = (\<lambda>p. None)(0x1000 \<mapsto> OpusEncoder
      \<lparr>enc_Fs = 48000, enc_channels = 1, use_vbr = 1, complexity = 10,
       signal_type = OPUS_SIGNAL_VOICE, bitrate_bps = 0, enc_frames = 0\<rparr>,
     0x2000 \<mapsto> OpusDecoder \<lparr>dec_Fs = 48000, dec_channels = 2, dec_frames = 0\<rparr>)"
  by (simp add: duo_world_def mono_world_def mono_run jni_defs api_defs test_defs)



lemma sint_GetArrayLength:
  assumes "length a < 2 ^ 31"
  shows "sint (GetArrayLength a) = int (length a)"
proof -
  have "signed_take_bit 31 (int (length a)) = int (length a)"
    using assms by (intro signed_take_bit_int_eq_self) auto
  then show ?thesis
    by (simp add: GetArrayLength_def signed_of_nat)
qed

lemma test_opus_respects_capacity: "respects_capacity test_opus"
  by (simp add: respects_capacity_def test_opus_def test_encode_frame_def)

lemma createEncoder_cases:
  "(\<exists>err. encoder_init L sr ch OPUS_APPLICATION_VOIP = Inl err \<and>
       opus_encoder_create L w sr ch OPUS_APPLICATION_VOIP =
         ((NULL, OPUS_ERROR err), logged (Call_opus_encoder_create sr ch OPUS_APPLICATION_VOIP) w) \<and>
       createEncoder L w sr ch =
         Returns 0 (logged (Call_opus_encoder_create sr ch OPUS_APPLICATION_VOIP) w)) \<or>
   (\<exists>e0. encoder_init L sr ch OPUS_APPLICATION_VOIP = Inr e0 \<and> opus_malloc L (heap w) = None \<and>
       opus_encoder_create L w sr ch OPUS_APPLICATION_VOIP =
         ((NULL, OPUS_ERROR OPUS_ALLOC_FAIL), logged (Call_opus_encoder_create sr ch OPUS_APPLICATION_VOIP) w) \<and>
       createEncoder L w sr ch =
         Returns 0 (logged (Call_opus_encoder_create sr ch OPUS_APPLICATION_VOIP) w)) \<or>
   (\<exists>e0 p. encoder_init L sr ch OPUS_APPLICATION_VOIP = Inr e0 \<and> opus_malloc L (heap w) = Some p \<and>
       p \<noteq> 0 \<and> heap w p = None \<and>
       snd (fst (opus_encoder_create L w sr ch OPUS_APPLICATION_VOIP)) = OPUS_OK \<and>
       createEncoder L w sr ch =
         Returns p
           \<lparr>heap = (heap w)(p \<mapsto> OpusEncoder
               (snd (encoder_ctl L
                  (snd (encoder_ctl L
                     (snd (encoder_ctl L e0 (OPUS_SET_VBR 1)))
                     (OPUS_SET_COMPLEXITY 10)))
                  (OPUS_SET_SIGNAL OPUS_SIGNAL_VOICE)))),
            calls = calls w @
              [Call_opus_encoder_create sr ch OPUS_APPLICATION_VOIP,
               Call_opus_encoder_ctl p (OPUS_SET_VBR 1),
               Call_opus_encoder_ctl p (OPUS_SET_COMPLEXITY 10),
               Call_opus_encoder_ctl p (OPUS_SET_SIGNAL OPUS_SIGNAL_VOICE)]\<rparr>)"
proof (cases "encoder_init L sr ch OPUS_APPLICATION_VOIP")
  case (Inl err)
  then show ?thesis
    by (simp add: Java_com_openintercommobile_OpusCodec_createEncoder_def opus_encoder_create_def
          Let_def)
next
  case (Inr e0)
  show ?thesis
  proof (cases "opus_malloc L (heap w)")
    case None
    with Inr show ?thesis
      by (simp add: Java_com_openintercommobile_OpusCodec_createEncoder_def
            opus_encoder_create_def Let_def heap_logged)
  next
    case (Some p)
    then have fresh: "p \<noteq> 0" "heap w p = None"
      by (auto simp: opus_malloc_def NULL_def split: option.splits if_splits)
    from Inr Some fresh show ?thesis
      by (simp add: Java_com_openintercommobile_OpusCodec_createEncoder_def
            opus_encoder_create_def opus_encoder_ctl_def then_do_def Let_def logged_def
            case_prod_beta)
  qed
qed

lemma createDecoder_cases:
  "(\<exists>err. decoder_init L sr ch = Inl err \<and>
       opus_decoder_create L w sr ch =
         ((NULL, OPUS_ERROR err), logged (Call_opus_decoder_create sr ch) w) \<and>
       createDecoder L w sr ch = Returns 0 (logged (Call_opus_decoder_create sr ch) w)) \<or>
   (\<exists>d0. decoder_init L sr ch = Inr d0 \<and> opus_malloc L (heap w) = None \<and>
       opus_decoder_create L w sr ch =
         ((NULL, OPUS_ERROR OPUS_ALLOC_FAIL), logged (Call_opus_decoder_create sr ch) w) \<and>
       createDecoder L w sr ch = Returns 0 (logged (Call_opus_decoder_create sr ch) w)) \<or>
   (\<exists>d0 p. decoder_init L sr ch = Inr d0 \<and> opus_malloc L (heap w) = Some p \<and>
       p \<noteq> 0 \<and> heap w p = None \<and>
       snd (fst (opus_decoder_create L w sr ch)) = OPUS_OK \<and>
       createDecoder L w sr ch =
         Returns p
           \<lparr>heap = (heap w)(p \<mapsto> OpusDecoder d0),
            calls = calls w @ [Call_opus_decoder_create sr ch]\<rparr>)"
proof (cases "decoder_init L sr ch")
  case (Inl err)
  then show ?thesis
    by (simp add: Java_com_openintercommobile_OpusCodec_createDecoder_def opus_decoder_create_def
          Let_def)
next
  case (Inr d0)
  show ?thesis
  proof (cases "opus_malloc L (heap w)")
    case None
    with Inr show ?thesis
      by (simp add: Java_com_openintercommobile_OpusCodec_createDecoder_def
            opus_decoder_create_def Let_def heap_logged)
  next
    case (Some p)
    then have fresh: "p \<noteq> 0" "heap w p = None"
      by (auto simp: opus_malloc_def NULL_def split: option.splits if_splits)
    from Inr Some fresh show ?thesis
      by (simp add: Java_com_openintercommobile_OpusCodec_createDecoder_def
            opus_decoder_create_def Let_def logged_def)
  qed
qed


lemma long_pcm_run:
  "encode test_opus mono_world 0x1000 long_pcm 960 packet_buffer =
     Returns (3, replicate 3 0 @ drop 3 packet_buffer)
       (logged (Call_opus_encode 0x1000 long_pcm 960 100)
          (mono_world\<lparr>heap := (heap mono_world)(0x1000 \<mapsto> OpusEncoder
              \<lparr>enc_Fs = 48000, enc_channels = 1, use_vbr = 1, complexity = 10,
               signal_type = OPUS_SIGNAL_VOICE, bitrate_bps = 0, enc_frames = Suc 0\<rparr>)\<rparr>))"
proof -
  have cap: "GetArrayLength packet_buffer = 100"
    by (simp add: GetArrayLength_def packet_buffer_def)
  have reads: "encode_reads test_opus
      \<lparr>enc_Fs = 48000, enc_channels = 1, use_vbr = 1, complexity = 10,
       signal_type = OPUS_SIGNAL_VOICE, bitrate_bps = 0, enc_frames = 0\<rparr> 960 100 = 960"
    by (simp add: test_opus_def test_encode_reads_def valid_frame_def)
  have enough: "encode_reads test_opus
      \<lparr>enc_Fs = 48000, enc_channels = 1, use_vbr = 1, complexity = 10,
       signal_type = OPUS_SIGNAL_VOICE, bitrate_bps = 0, enc_frames = 0\<rparr> 960
      (GetArrayLength packet_buffer) \<le> length long_pcm"
    by (simp add: cap reads long_pcm_def)
  have live: "heap mono_world 0x1000 = Some (OpusEncoder
      \<lparr>enc_Fs = 48000, enc_channels = 1, use_vbr = 1, complexity = 10,
       signal_type = OPUS_SIGNAL_VOICE, bitrate_bps = 0, enc_frames = 0\<rparr>)"
    by (simp add: heap_mono_world)
  have native: "encode_frame test_opus
      \<lparr>enc_Fs = 48000, enc_channels = 1, use_vbr = 1, complexity = 10,
       signal_type = OPUS_SIGNAL_VOICE, bitrate_bps = 0, enc_frames = 0\<rparr>
      (take 960 long_pcm) 960 packet_buffer 100 =
      (3, replicate 3 0, \<lparr>enc_Fs = 48000, enc_channels = 1, use_vbr = 1, complexity = 10,
       signal_type = OPUS_SIGNAL_VOICE, bitrate_bps = 0, enc_frames = Suc 0\<rparr>)"
    by (simp add: test_opus_def test_encode_frame_def valid_frame_def)
  show ?thesis
    by (simp add: encode_on_live_encoder [OF live enough] cap reads native)
qed

lemma live_encoder_mono: "live_encoder mono_world 0x1000"
  by (simp add: live_encoder_def heap_mono_world)

lemma live_decoder_stereo: "live_decoder stereo_world 0x1000"
  by (simp add: live_decoder_def heap_stereo_world)

lemma boot_has_no_object: "heap boot p = None"
  by (simp add: boot_def)


lemma unallocated_is_not_live:
  "heap w p = None \<Longrightarrow> \<not> live_encoder w p \<and> \<not> live_decoder w p"
  by (simp add: live_encoder_def live_decoder_def)


section \<open>The claims\<close>

subsection \<open>C1: the PCM length is not checked\<close>

text \<open>
  C1 says that an \<open>encode\<close> whose PCM array is not \<open>frameSize * channels\<close> long is
  rejected with \<open>InvalidParameter\<close> and never reaches the native encoder. The entry point
  never reads the length of the PCM array (and does not know the channel count, which
  lives in the native encoder). What holds instead, C1 as amended: on a live encoder
  every call is handed to \<^verbatim>\<open>opus_encode\<close> with the array as it is. When the array holds
  at least the samples libopus reads, also when it holds more, \<^verbatim>\<open>opus_encode\<close> runs once
  and its result is what the caller gets; when it holds fewer, libopus reads past the end
  of the array, a fault.
\<close>

theorem encode_forwards_any_pcm_length:
  assumes "heap w p = Some (OpusEncoder e)"
  shows "(encode_reads L e frameSize (GetArrayLength opus) \<le> length pcm \<longrightarrow>
            returns (encode L w p pcm frameSize opus) \<and>
            calls (after (encode L w p pcm frameSize opus)) =
              calls w @ [Call_opus_encode p pcm frameSize (GetArrayLength opus)] \<and>
            fst (retval (encode L w p pcm frameSize opus)) =
              fst (encode_frame L e (take (encode_reads L e frameSize (GetArrayLength opus)) pcm)
                     frameSize opus (GetArrayLength opus))) \<and>
         (length pcm < encode_reads L e frameSize (GetArrayLength opus) \<longrightarrow>
            encode L w p pcm frameSize opus = Fault)"
  by (simp add: encode_on_live_encoder [OF assms] encode_reads_past_pcm [OF assms]
        returns_def calls_logged)

theorem encode_forwards_any_pcm_length_witness:
  "heap mono_world 0x1000 = Some (OpusEncoder
      \<lparr>enc_Fs = 48000, enc_channels = 1, use_vbr = 1, complexity = 10,
       signal_type = OPUS_SIGNAL_VOICE, bitrate_bps = 0, enc_frames = 0\<rparr>) \<and>
   length long_pcm = 1920 \<and>
   returns (encode test_opus mono_world 0x1000 long_pcm 960 packet_buffer) \<and>
   calls (after (encode test_opus mono_world 0x1000 long_pcm 960 packet_buffer)) =
     calls mono_world @ [Call_opus_encode 0x1000 long_pcm 960 100] \<and>
   length short_pcm = 480 \<and>
   encode test_opus mono_world 0x1000 short_pcm 960 packet_buffer = Fault"
proof -
  have live: "heap mono_world 0x1000 = Some (OpusEncoder
      \<lparr>enc_Fs = 48000, enc_channels = 1, use_vbr = 1, complexity = 10,
       signal_type = OPUS_SIGNAL_VOICE, bitrate_bps = 0, enc_frames = 0\<rparr>)"
    by (simp add: heap_mono_world)
  have lengths: "length long_pcm = 1920" "length short_pcm = 480"
    by (simp_all add: long_pcm_def short_pcm_def)
  have cap: "GetArrayLength packet_buffer = 100"
    by (simp add: GetArrayLength_def packet_buffer_def)
  have reads: "encode_reads test_opus
      \<lparr>enc_Fs = 48000, enc_channels = 1, use_vbr = 1, complexity = 10,
       signal_type = OPUS_SIGNAL_VOICE, bitrate_bps = 0, enc_frames = 0\<rparr> 960 100 = 960"
    by (simp add: test_opus_def test_encode_reads_def valid_frame_def)
  show ?thesis
    using live lengths cap reads
      encode_forwards_any_pcm_length [OF live, of test_opus 960 packet_buffer long_pcm]
      encode_forwards_any_pcm_length [OF live, of test_opus 960 packet_buffer short_pcm]
    by simp
qed

text \<open>
  The claim as stated fails: a mono encoder given 1920 samples for a frame of 960 is not
  refused. The native encoder runs on that array, and the caller gets the count 3.
\<close>

theorem encode_length_mismatch_reaches_native:
  "live_encoder mono_world mono_encoder \<and>
   length long_pcm \<noteq> 960 * 1 \<and>
   returns (encode test_opus mono_world mono_encoder long_pcm 960 packet_buffer) \<and>
   encode_result (fst (retval (encode test_opus mono_world mono_encoder long_pcm 960 packet_buffer)))
     = Inr 3 \<and>
   last (calls (after (encode test_opus mono_world mono_encoder long_pcm 960 packet_buffer))) =
     Call_opus_encode mono_encoder long_pcm 960 100"
proof -
  have "length long_pcm \<noteq> 960 * 1"
    by (simp add: long_pcm_def)
  then show ?thesis
    by (simp add: mono_encoder_eq long_pcm_run live_encoder_def heap_mono_world returns_def
          encode_result_def calls_logged)
qed

subsection \<open>C3: destroying a handle\<close>

text \<open>
  C3 says that \<open>destroyEncoder\<close> and \<open>destroyDecoder\<close> are no-ops on every invalid handle,
  a handle destroyed before included. The entry points test the handle against zero and
  nothing else. What holds instead, C3 as amended: destroying the zero handle is a no-op
  that never faults; destroying a live handle releases that object and leaves the object
  of every other handle as it was; a nonzero handle with no live object behind it
  (destroyed before, or never issued) is passed to the native destroy all the same, which
  is a fault.
\<close>

theorem destroy_checks_only_for_null:
  "destroyEncoder w NULL = Returns () w \<and>
   destroyDecoder w NULL = Returns () w \<and>
   (p \<noteq> NULL \<and> live_encoder w p \<longrightarrow>
      returns (destroyEncoder w p) \<and> heap (after (destroyEncoder w p)) = (heap w)(p := None)) \<and>
   (p \<noteq> NULL \<and> live_decoder w p \<longrightarrow>
      returns (destroyDecoder w p) \<and> heap (after (destroyDecoder w p)) = (heap w)(p := None)) \<and>
   (p \<noteq> NULL \<and> heap w p = None \<longrightarrow>
      destroyEncoder w p = Fault \<and> destroyDecoder w p = Fault)"
  by (simp add: destroyEncoder_null destroyDecoder_null destroyEncoder_on_live_encoder
        destroyDecoder_on_live_decoder destroyEncoder_without_live_encoder
        destroyDecoder_without_live_decoder unallocated_is_not_live returns_def heap_logged)

theorem destroy_checks_only_for_null_witness:
  "(0x1000 :: jlong) \<noteq> NULL \<and> live_encoder duo_world 0x1000 \<and>
   returns (destroyEncoder duo_world 0x1000) \<and>
   heap (after (destroyEncoder duo_world 0x1000)) 0x1000 = None \<and>
   heap (after (destroyEncoder duo_world 0x1000)) 0x2000 = heap duo_world 0x2000 \<and>
   live_decoder duo_world 0x2000 \<and>
   destroyEncoder duo_world NULL = Returns () duo_world"
proof -
  have "(0x1000 :: jlong) \<noteq> NULL"
    by (simp add: NULL_def)
  moreover have "live_encoder duo_world 0x1000" "live_decoder duo_world 0x2000"
    by (simp_all add: live_encoder_def live_decoder_def heap_duo_world)
  ultimately show ?thesis
    using destroy_checks_only_for_null [of duo_world "0x1000"]
    by simp
qed

text \<open>
  The claim as stated fails: the second \<open>destroyEncoder\<close> of the same handle frees the
  encoder a second time.
\<close>

theorem destroy_twice_is_a_double_free:
  "mono_encoder \<noteq> NULL \<and> live_encoder mono_world mono_encoder \<and>
   returns (destroyEncoder mono_world mono_encoder) \<and>
   destroyEncoder (after (destroyEncoder mono_world mono_encoder)) mono_encoder = Fault"
proof -
  have nz: "(0x1000 :: jlong) \<noteq> NULL"
    by (simp add: NULL_def)
  have first: "destroyEncoder mono_world 0x1000 =
      Returns () (logged (Call_opus_encoder_destroy 0x1000)
        (mono_world\<lparr>heap := (heap mono_world)(0x1000 := None)\<rparr>))"
    by (rule destroyEncoder_on_live_encoder [OF nz live_encoder_mono])
  have "\<not> live_encoder (after (destroyEncoder mono_world 0x1000)) 0x1000"
    by (simp add: first live_encoder_def heap_logged)
  then have "destroyEncoder (after (destroyEncoder mono_world 0x1000)) 0x1000 = Fault"
    by (rule destroyEncoder_without_live_encoder [OF nz])
  with nz live_encoder_mono first show ?thesis
    by (simp add: mono_encoder_eq returns_def)
qed

subsection \<open>C4: handles that are not live\<close>

text \<open>
  C4 says that every operation answers a destroyed or fabricated handle with
  \<open>InvalidHandle\<close> or the failure sentinel and never touches freed or arbitrary memory.
  The bindings keep no record of the handles they issued: a handle is the address itself.
  What holds instead, C4 as amended: \<open>setBitrate\<close>, \<open>destroyEncoder\<close> and
  \<open>destroyDecoder\<close> return without doing anything when the handle is zero; every
  operation (\<open>encode\<close>, \<open>decode\<close>, \<open>setBitrate\<close>, both destroys) uses a nonzero
  handle as the address of the native object without a check, so a nonzero handle with no
  live object behind it does not yield \<open>InvalidHandle\<close> but a fault.
\<close>

theorem handles_are_unchecked_pointers:
  "setBitrate L w NULL bitrate = Returns () w \<and>
   destroyEncoder w NULL = Returns () w \<and>
   destroyDecoder w NULL = Returns () w \<and>
   (h \<noteq> NULL \<and> heap w h = None \<longrightarrow>
      encode L w h pcm frameSize opus = Fault \<and>
      decode L w h opus pcm frameSize = Fault \<and>
      setBitrate L w h bitrate = Fault \<and>
      destroyEncoder w h = Fault \<and>
      destroyDecoder w h = Fault)"
  by (simp add: setBitrate_null destroyEncoder_null destroyDecoder_null
        encode_without_live_encoder decode_without_live_decoder setBitrate_without_live_encoder
        destroyEncoder_without_live_encoder destroyDecoder_without_live_decoder
        unallocated_is_not_live)

theorem handles_are_unchecked_pointers_witness:
  "(0x5000 :: jlong) \<noteq> NULL \<and> heap boot 0x5000 = None \<and>
   encode test_opus boot 0x5000 long_pcm 960 packet_buffer = Fault \<and>
   decode test_opus boot 0x5000 packet_buffer long_pcm 960 = Fault \<and>
   setBitrate test_opus boot 0x5000 64000 = Fault \<and>
   destroyEncoder boot 0x5000 = Fault \<and>
   destroyDecoder boot 0x5000 = Fault \<and>
   setBitrate test_opus boot NULL 64000 = Returns () boot"
proof -
  have "(0x5000 :: jlong) \<noteq> NULL"
    by (simp add: NULL_def)
  moreover have "heap boot 0x5000 = None"
    by (rule boot_has_no_object)
  ultimately show ?thesis
    using handles_are_unchecked_pointers
      [of test_opus boot 64000 "0x5000" long_pcm 960 packet_buffer]
    by simp
qed

text \<open>
  The claim as stated fails: an address that was never issued faults in \<open>encode\<close>, and the
  handle of a decoder that was destroyed faults in \<open>decode\<close>.
\<close>

theorem stale_and_fabricated_handles_fault:
  "(0x5000 :: jlong) \<noteq> NULL \<and> heap mono_world 0x5000 = None \<and>
   encode test_opus mono_world 0x5000 long_pcm 960 packet_buffer = Fault \<and>
   stereo_decoder \<noteq> NULL \<and>
   returns (destroyDecoder stereo_world stereo_decoder) \<and>
   decode test_opus (after (destroyDecoder stereo_world stereo_decoder)) stereo_decoder
     [] stereo_pcm 960 = Fault"
proof -
  have nz: "(0x1000 :: jlong) \<noteq> NULL" "(0x5000 :: jlong) \<noteq> NULL"
    by (simp_all add: NULL_def)
  have never: "heap mono_world 0x5000 = None"
    by (simp add: heap_mono_world)
  then have fabricated: "encode test_opus mono_world 0x5000 long_pcm 960 packet_buffer = Fault"
    by (simp add: encode_without_live_encoder unallocated_is_not_live)
  have destroyed: "destroyDecoder stereo_world 0x1000 =
      Returns () (logged (Call_opus_decoder_destroy 0x1000)
        (stereo_world\<lparr>heap := (heap stereo_world)(0x1000 := None)\<rparr>))"
    by (rule destroyDecoder_on_live_decoder [OF nz(1) live_decoder_stereo])
  have "\<not> live_decoder (after (destroyDecoder stereo_world 0x1000)) 0x1000"
    by (simp add: destroyed live_decoder_def heap_logged)
  then have "decode test_opus (after (destroyDecoder stereo_world 0x1000)) 0x1000
      [] stereo_pcm 960 = Fault"
    by (rule decode_without_live_decoder)
  with nz never fabricated destroyed show ?thesis
    by (simp add: stereo_decoder_eq returns_def)
qed

subsection \<open>C5: the tuning applied at creation\<close>

text \<open>
  C5: whenever \<open>createEncoder\<close> succeeds (it returns a nonzero handle), the new encoder
  has received, in this order and before the handle is returned, the control requests
  \<^verbatim>\<open>OPUS_SET_VBR(1)\<close>, \<^verbatim>\<open>OPUS_SET_COMPLEXITY(10)\<close> and
  \<^verbatim>\<open>OPUS_SET_SIGNAL(OPUS_SIGNAL_VOICE)\<close>, and its state is the initial state after these
  three. The caller passes a sampling rate and a channel count and nothing else.
\<close>

theorem createEncoder_applies_default_tuning:
  assumes "createEncoder L w sampleRate channels = Returns h w'" and "h \<noteq> 0"
  shows "\<exists>e0. encoder_init L sampleRate channels OPUS_APPLICATION_VOIP = Inr e0 \<and>
           heap w' h = Some (OpusEncoder
             (snd (encoder_ctl L
                (snd (encoder_ctl L
                   (snd (encoder_ctl L e0 (OPUS_SET_VBR 1)))
                   (OPUS_SET_COMPLEXITY 10)))
                (OPUS_SET_SIGNAL OPUS_SIGNAL_VOICE)))) \<and>
           calls w' = calls w @
             [Call_opus_encoder_create sampleRate channels OPUS_APPLICATION_VOIP,
              Call_opus_encoder_ctl h (OPUS_SET_VBR 1),
              Call_opus_encoder_ctl h (OPUS_SET_COMPLEXITY 10),
              Call_opus_encoder_ctl h (OPUS_SET_SIGNAL OPUS_SIGNAL_VOICE)]"
  using createEncoder_cases [of L sampleRate channels w] assms
  by auto

theorem createEncoder_applies_default_tuning_witness:
  "createEncoder test_opus boot 48000 1 = Returns 0x1000 mono_world \<and> (0x1000 :: jlong) \<noteq> 0 \<and>
   (\<exists>e0. test_encoder_init 48000 1 OPUS_APPLICATION_VOIP = Inr e0 \<and>
      use_vbr e0 = 0 \<and> complexity e0 = 0 \<and> signal_type e0 = OPUS_AUTO \<and>
      heap mono_world 0x1000 = Some (OpusEncoder
        (e0\<lparr>use_vbr := 1, complexity := 10, signal_type := OPUS_SIGNAL_VOICE\<rparr>)) \<and>
      calls mono_world =
        [Call_opus_encoder_create 48000 1 OPUS_APPLICATION_VOIP,
         Call_opus_encoder_ctl 0x1000 (OPUS_SET_VBR 1),
         Call_opus_encoder_ctl 0x1000 (OPUS_SET_COMPLEXITY 10),
         Call_opus_encoder_ctl 0x1000 (OPUS_SET_SIGNAL OPUS_SIGNAL_VOICE)])"
proof -
  have run: "createEncoder test_opus boot 48000 1 = Returns 0x1000 mono_world"
    by (simp add: mono_world_def mono_run)
  have nz: "(0x1000 :: jlong) \<noteq> 0"
    by simp
  show ?thesis
    using run nz createEncoder_applies_default_tuning [OF run nz]
    by (auto simp: test_opus_def test_encoder_init_def boot_def split: if_splits)
qed

subsection \<open>C6: the bitrate\<close>

text \<open>
  C6 says that \<open>setBitrate\<close> is ignored on an invalid handle and rejects a bitrate outside
  the codec's range with \<open>InvalidParameter\<close>. The entry point returns nothing, tests the
  handle against zero only and looks at neither the bitrate nor the status of the control
  request. What holds instead, C6 as amended: with the zero handle the call is ignored; on
  a live encoder every bitrate is forwarded as \<^verbatim>\<open>OPUS_SET_BITRATE\<close>, the encoder is left
  as libopus leaves it, and the status libopus returns is dropped.
\<close>

theorem setBitrate_forwards_unvalidated:
  "setBitrate L w NULL bitrate = Returns () w \<and>
   (p \<noteq> NULL \<and> heap w p = Some (OpusEncoder e) \<longrightarrow>
      setBitrate L w p bitrate =
        Returns ()
          (logged (Call_opus_encoder_ctl p (OPUS_SET_BITRATE bitrate))
             (w\<lparr>heap := (heap w)(p \<mapsto>
                 OpusEncoder (snd (encoder_ctl L e (OPUS_SET_BITRATE bitrate))))\<rparr>)))"
  by (simp add: setBitrate_null setBitrate_on_live_encoder)

theorem setBitrate_forwards_unvalidated_witness:
  "(0x1000 :: jlong) \<noteq> NULL \<and>
   heap mono_world 0x1000 = Some (OpusEncoder
      \<lparr>enc_Fs = 48000, enc_channels = 1, use_vbr = 1, complexity = 10,
       signal_type = OPUS_SIGNAL_VOICE, bitrate_bps = 0, enc_frames = 0\<rparr>) \<and>
   fst (encoder_ctl test_opus
      \<lparr>enc_Fs = 48000, enc_channels = 1, use_vbr = 1, complexity = 10,
       signal_type = OPUS_SIGNAL_VOICE, bitrate_bps = 0, enc_frames = 0\<rparr>
      (OPUS_SET_BITRATE (- 5))) = OPUS_ERROR OPUS_BAD_ARG \<and>
   setBitrate test_opus mono_world 0x1000 (- 5) =
     Returns () (logged (Call_opus_encoder_ctl 0x1000 (OPUS_SET_BITRATE (- 5))) mono_world)"
proof -
  have nz: "(0x1000 :: jlong) \<noteq> NULL"
    by (simp add: NULL_def)
  have live: "heap mono_world 0x1000 = Some (OpusEncoder
      \<lparr>enc_Fs = 48000, enc_channels = 1, use_vbr = 1, complexity = 10,
       signal_type = OPUS_SIGNAL_VOICE, bitrate_bps = 0, enc_frames = 0\<rparr>)"
    by (simp add: heap_mono_world)
  have same: "mono_world\<lparr>heap := (heap mono_world)(0x1000 \<mapsto> OpusEncoder
      \<lparr>enc_Fs = 48000, enc_channels = 1, use_vbr = 1, complexity = 10,
       signal_type = OPUS_SIGNAL_VOICE, bitrate_bps = 0, enc_frames = 0\<rparr>)\<rparr> = mono_world"
    using live by (simp add: fun_upd_idem)
  show ?thesis
    using nz live same
      setBitrate_forwards_unvalidated [of test_opus mono_world "- 5" "0x1000"
        "\<lparr>enc_Fs = 48000, enc_channels = 1, use_vbr = 1, complexity = 10,
          signal_type = OPUS_SIGNAL_VOICE, bitrate_bps = 0, enc_frames = 0\<rparr>"]
    by (simp add: test_opus_def)
qed

text \<open>
  The claim as stated fails: the handle of a destroyed encoder is invalid and not zero,
  and \<open>setBitrate\<close> sends the control request to the freed encoder.
\<close>

theorem setBitrate_dangling_handle_faults:
  "mono_encoder \<noteq> NULL \<and>
   returns (destroyEncoder mono_world mono_encoder) \<and>
   setBitrate test_opus (after (destroyEncoder mono_world mono_encoder)) mono_encoder 64000 = Fault"
proof -
  have nz: "(0x1000 :: jlong) \<noteq> NULL"
    by (simp add: NULL_def)
  have destroyed: "destroyEncoder mono_world 0x1000 =
      Returns () (logged (Call_opus_encoder_destroy 0x1000)
        (mono_world\<lparr>heap := (heap mono_world)(0x1000 := None)\<rparr>))"
    by (rule destroyEncoder_on_live_encoder [OF nz live_encoder_mono])
  have "\<not> live_encoder (after (destroyEncoder mono_world 0x1000)) 0x1000"
    by (simp add: destroyed live_encoder_def heap_logged)
  then have "setBitrate test_opus (after (destroyEncoder mono_world 0x1000)) 0x1000 64000 = Fault"
    by (rule setBitrate_without_live_encoder [OF nz])
  with nz destroyed show ?thesis
    by (simp add: mono_encoder_eq returns_def)
qed

subsection \<open>C7: the zero handle\<close>

text \<open>
  C7: \<open>createEncoder\<close> and \<open>createDecoder\<close> always return; the value is zero exactly when
  the native creation reported a status other than \<^verbatim>\<open>OPUS_OK\<close>, and then no native object
  was added; a nonzero value is a fresh address that now holds a live codec of the
  requested kind; and whatever is at address zero is left as it was, so zero never becomes
  the handle of a session.
\<close>

theorem create_returns_zero_iff_creation_failed:
  "returns (createEncoder L w sampleRate channels) \<and>
   (retval (createEncoder L w sampleRate channels) = 0 \<longleftrightarrow>
      snd (fst (opus_encoder_create L w sampleRate channels OPUS_APPLICATION_VOIP)) \<noteq> OPUS_OK) \<and>
   (retval (createEncoder L w sampleRate channels) = 0 \<longrightarrow>
      heap (after (createEncoder L w sampleRate channels)) = heap w) \<and>
   (retval (createEncoder L w sampleRate channels) \<noteq> 0 \<longrightarrow>
      heap w (retval (createEncoder L w sampleRate channels)) = None \<and>
      live_encoder (after (createEncoder L w sampleRate channels))
        (retval (createEncoder L w sampleRate channels))) \<and>
   heap (after (createEncoder L w sampleRate channels)) 0 = heap w 0 \<and>
   returns (createDecoder L w sampleRate channels) \<and>
   (retval (createDecoder L w sampleRate channels) = 0 \<longleftrightarrow>
      snd (fst (opus_decoder_create L w sampleRate channels)) \<noteq> OPUS_OK) \<and>
   (retval (createDecoder L w sampleRate channels) = 0 \<longrightarrow>
      heap (after (createDecoder L w sampleRate channels)) = heap w) \<and>
   (retval (createDecoder L w sampleRate channels) \<noteq> 0 \<longrightarrow>
      heap w (retval (createDecoder L w sampleRate channels)) = None \<and>
      live_decoder (after (createDecoder L w sampleRate channels))
        (retval (createDecoder L w sampleRate channels))) \<and>
   heap (after (createDecoder L w sampleRate channels)) 0 = heap w 0"
proof -
  have enc: "returns (createEncoder L w sampleRate channels) \<and>
   (retval (createEncoder L w sampleRate channels) = 0 \<longleftrightarrow>
      snd (fst (opus_encoder_create L w sampleRate channels OPUS_APPLICATION_VOIP)) \<noteq> OPUS_OK) \<and>
   (retval (createEncoder L w sampleRate channels) = 0 \<longrightarrow>
      heap (after (createEncoder L w sampleRate channels)) = heap w) \<and>
   (retval (createEncoder L w sampleRate channels) \<noteq> 0 \<longrightarrow>
      heap w (retval (createEncoder L w sampleRate channels)) = None \<and>
      live_encoder (after (createEncoder L w sampleRate channels))
        (retval (createEncoder L w sampleRate channels))) \<and>
   heap (after (createEncoder L w sampleRate channels)) 0 = heap w 0"
    using createEncoder_cases [of L sampleRate channels w]
    by (elim disjE exE conjE) (simp_all add: returns_def heap_logged live_encoder_def)
  have dec: "returns (createDecoder L w sampleRate channels) \<and>
   (retval (createDecoder L w sampleRate channels) = 0 \<longleftrightarrow>
      snd (fst (opus_decoder_create L w sampleRate channels)) \<noteq> OPUS_OK) \<and>
   (retval (createDecoder L w sampleRate channels) = 0 \<longrightarrow>
      heap (after (createDecoder L w sampleRate channels)) = heap w) \<and>
   (retval (createDecoder L w sampleRate channels) \<noteq> 0 \<longrightarrow>
      heap w (retval (createDecoder L w sampleRate channels)) = None \<and>
      live_decoder (after (createDecoder L w sampleRate channels))
        (retval (createDecoder L w sampleRate channels))) \<and>
   heap (after (createDecoder L w sampleRate channels)) 0 = heap w 0"
    using createDecoder_cases [of L sampleRate channels w]
    by (elim disjE exE conjE) (simp_all add: returns_def heap_logged live_decoder_def)
  from enc dec show ?thesis
    by blast
qed

theorem create_returns_zero_iff_creation_failed_witness:
  "retval (createEncoder test_opus boot 48000 1) = 0x1000 \<and>
   live_encoder (after (createEncoder test_opus boot 48000 1)) 0x1000 \<and>
   snd (fst (opus_encoder_create test_opus boot 48000 1 OPUS_APPLICATION_VOIP)) = OPUS_OK \<and>
   snd (fst (opus_decoder_create test_opus boot 44100 2)) = OPUS_ERROR OPUS_BAD_ARG \<and>
   retval (createDecoder test_opus boot 44100 2) = 0 \<and>
   heap (after (createDecoder test_opus boot 44100 2)) = heap boot"
proof -
  have ok: "retval (createEncoder test_opus boot 48000 1) = 0x1000"
    by (simp add: mono_run)
  have bad: "snd (fst (opus_decoder_create test_opus boot 44100 2)) = OPUS_ERROR OPUS_BAD_ARG"
    by (simp add: opus_decoder_create_def test_opus_def test_decoder_init_def valid_rate_def)
  show ?thesis
    using ok bad
      create_returns_zero_iff_creation_failed [of test_opus boot 48000 1]
      create_returns_zero_iff_creation_failed [of test_opus boot 44100 2]
    by simp
qed

subsection \<open>C8: negative returns\<close>

text \<open>
  C8: an \<open>encode\<close> returns a value only on a live encoder whose PCM array holds the samples
  libopus reads, and then the \<^verbatim>\<open>jint\<close> returned is the value \<^verbatim>\<open>opus_encode\<close> returned,
  unchanged. Read by the specification's convention, a negative native return is therefore
  the failure \<open>EncodeFailed\<close> and never a count, and any other return is the count of bytes
  written. \<open>decode\<close> does the same with \<^verbatim>\<open>opus_decode\<close>, \<open>DecodeFailed\<close> and the count of
  samples per channel, on a live decoder whose PCM array holds the samples libopus stores.
\<close>

theorem native_return_is_the_jint_returned:
  "(returns (encode L w p pcm frameSize opus) \<longrightarrow>
      (\<exists>e. heap w p = Some (OpusEncoder e) \<and>
           encode_reads L e frameSize (GetArrayLength opus) \<le> length pcm)) \<and>
   (heap w p = Some (OpusEncoder e) \<and>
    encode_reads L e frameSize (GetArrayLength opus) \<le> length pcm \<longrightarrow>
      returns (encode L w p pcm frameSize opus) \<and>
      fst (retval (encode L w p pcm frameSize opus)) =
        fst (encode_frame L e (take (encode_reads L e frameSize (GetArrayLength opus)) pcm)
               frameSize opus (GetArrayLength opus)) \<and>
      (sint (fst (encode_frame L e (take (encode_reads L e frameSize (GetArrayLength opus)) pcm)
               frameSize opus (GetArrayLength opus))) < 0 \<longrightarrow>
         encode_result (fst (retval (encode L w p pcm frameSize opus))) = Inl EncodeFailed) \<and>
      (0 \<le> sint (fst (encode_frame L e (take (encode_reads L e frameSize (GetArrayLength opus)) pcm)
               frameSize opus (GetArrayLength opus))) \<longrightarrow>
         encode_result (fst (retval (encode L w p pcm frameSize opus))) =
           Inr (nat (sint (fst (encode_frame L e
             (take (encode_reads L e frameSize (GetArrayLength opus)) pcm)
             frameSize opus (GetArrayLength opus))))))) \<and>
   (returns (decode L w q packet out frameSize) \<longrightarrow>
      (\<exists>d. heap w q = Some (OpusDecoder d) \<and>
           length (fst (snd (decode_frame L d packet (GetArrayLength packet) frameSize 0)))
             \<le> length out)) \<and>
   (heap w q = Some (OpusDecoder d) \<and>
    length (fst (snd (decode_frame L d packet (GetArrayLength packet) frameSize 0)))
      \<le> length out \<longrightarrow>
      returns (decode L w q packet out frameSize) \<and>
      fst (retval (decode L w q packet out frameSize)) =
        fst (decode_frame L d packet (GetArrayLength packet) frameSize 0) \<and>
      (sint (fst (decode_frame L d packet (GetArrayLength packet) frameSize 0)) < 0 \<longrightarrow>
         decode_result (fst (retval (decode L w q packet out frameSize))) = Inl DecodeFailed) \<and>
      (0 \<le> sint (fst (decode_frame L d packet (GetArrayLength packet) frameSize 0)) \<longrightarrow>
         decode_result (fst (retval (decode L w q packet out frameSize))) =
           Inr (nat (sint (fst (decode_frame L d packet (GetArrayLength packet) frameSize 0))))))"
proof -
  have enc_only: "returns (encode L w p pcm frameSize opus) \<longrightarrow>
      (\<exists>e. heap w p = Some (OpusEncoder e) \<and>
           encode_reads L e frameSize (GetArrayLength opus) \<le> length pcm)"
    by (simp add: Java_com_openintercommobile_OpusCodec_encode_def opus_encode_def then_do_def
          Let_def returns_def split: option.splits native_obj.splits)
  have dec_only: "returns (decode L w q packet out frameSize) \<longrightarrow>
      (\<exists>d. heap w q = Some (OpusDecoder d) \<and>
           length (fst (snd (decode_frame L d packet (GetArrayLength packet) frameSize 0)))
             \<le> length out)"
    by (simp add: Java_com_openintercommobile_OpusCodec_decode_def opus_decode_def then_do_def
          Let_def case_prod_beta returns_def split: option.splits native_obj.splits)
  have enc: "heap w p = Some (OpusEncoder e) \<and>
    encode_reads L e frameSize (GetArrayLength opus) \<le> length pcm \<longrightarrow>
      returns (encode L w p pcm frameSize opus) \<and>
      fst (retval (encode L w p pcm frameSize opus)) =
        fst (encode_frame L e (take (encode_reads L e frameSize (GetArrayLength opus)) pcm)
               frameSize opus (GetArrayLength opus)) \<and>
      (sint (fst (encode_frame L e (take (encode_reads L e frameSize (GetArrayLength opus)) pcm)
               frameSize opus (GetArrayLength opus))) < 0 \<longrightarrow>
         encode_result (fst (retval (encode L w p pcm frameSize opus))) = Inl EncodeFailed) \<and>
      (0 \<le> sint (fst (encode_frame L e (take (encode_reads L e frameSize (GetArrayLength opus)) pcm)
               frameSize opus (GetArrayLength opus))) \<longrightarrow>
         encode_result (fst (retval (encode L w p pcm frameSize opus))) =
           Inr (nat (sint (fst (encode_frame L e
             (take (encode_reads L e frameSize (GetArrayLength opus)) pcm)
             frameSize opus (GetArrayLength opus))))))"
    by (simp add: encode_on_live_encoder returns_def encode_result_def)
  have dec: "heap w q = Some (OpusDecoder d) \<and>
    length (fst (snd (decode_frame L d packet (GetArrayLength packet) frameSize 0)))
      \<le> length out \<longrightarrow>
      returns (decode L w q packet out frameSize) \<and>
      fst (retval (decode L w q packet out frameSize)) =
        fst (decode_frame L d packet (GetArrayLength packet) frameSize 0) \<and>
      (sint (fst (decode_frame L d packet (GetArrayLength packet) frameSize 0)) < 0 \<longrightarrow>
         decode_result (fst (retval (decode L w q packet out frameSize))) = Inl DecodeFailed) \<and>
      (0 \<le> sint (fst (decode_frame L d packet (GetArrayLength packet) frameSize 0)) \<longrightarrow>
         decode_result (fst (retval (decode L w q packet out frameSize))) =
           Inr (nat (sint (fst (decode_frame L d packet (GetArrayLength packet) frameSize 0)))))"
    by (simp add: decode_on_live_decoder returns_def decode_result_def)
  from enc_only enc dec_only dec show ?thesis
    by blast
qed

theorem native_return_is_the_jint_returned_witness:
  "heap mono_world 0x1000 = Some (OpusEncoder
      \<lparr>enc_Fs = 48000, enc_channels = 1, use_vbr = 1, complexity = 10,
       signal_type = OPUS_SIGNAL_VOICE, bitrate_bps = 0, enc_frames = 0\<rparr>) \<and>
   heap mono_world 0x2000 = None \<and>
   fst (retval (encode test_opus mono_world 0x1000 long_pcm 7 packet_buffer)) = - 1 \<and>
   encode_result (fst (retval (encode test_opus mono_world 0x1000 long_pcm 7 packet_buffer))) =
     Inl EncodeFailed \<and>
   encode_result (fst (retval (encode test_opus mono_world 0x1000 long_pcm 960 packet_buffer))) =
     Inr 3 \<and>
   heap stereo_world 0x1000 =
     Some (OpusDecoder \<lparr>dec_Fs = 48000, dec_channels = 2, dec_frames = 0\<rparr>) \<and>
   fst (retval (decode test_opus stereo_world 0x1000 packet_buffer stereo_pcm 960)) = 960 \<and>
   decode_result (fst (retval (decode test_opus stereo_world 0x1000 packet_buffer stereo_pcm 960))) =
     Inr 960"
proof -
  have enc: "heap mono_world 0x1000 = Some (OpusEncoder
      \<lparr>enc_Fs = 48000, enc_channels = 1, use_vbr = 1, complexity = 10,
       signal_type = OPUS_SIGNAL_VOICE, bitrate_bps = 0, enc_frames = 0\<rparr>)"
    "heap mono_world 0x2000 = None"
    by (simp_all add: heap_mono_world)
  have dec: "heap stereo_world 0x1000 =
      Some (OpusDecoder \<lparr>dec_Fs = 48000, dec_channels = 2, dec_frames = 0\<rparr>)"
    by (simp add: heap_stereo_world)
  have lengths: "length long_pcm = 1920" "length stereo_pcm = 1920"
    "GetArrayLength packet_buffer = 100"
    by (simp_all add: long_pcm_def stereo_pcm_def GetArrayLength_def packet_buffer_def)
  have refused: "encode_reads test_opus
      \<lparr>enc_Fs = 48000, enc_channels = 1, use_vbr = 1, complexity = 10,
       signal_type = OPUS_SIGNAL_VOICE, bitrate_bps = 0, enc_frames = 0\<rparr> 7 100 = 0"
    "fst (encode_frame test_opus
      \<lparr>enc_Fs = 48000, enc_channels = 1, use_vbr = 1, complexity = 10,
       signal_type = OPUS_SIGNAL_VOICE, bitrate_bps = 0, enc_frames = 0\<rparr>
      [] 7 packet_buffer 100) = - 1"
    by (simp_all add: test_opus_def test_encode_reads_def test_encode_frame_def valid_frame_def)
  have encoded: "encode_reads test_opus
      \<lparr>enc_Fs = 48000, enc_channels = 1, use_vbr = 1, complexity = 10,
       signal_type = OPUS_SIGNAL_VOICE, bitrate_bps = 0, enc_frames = 0\<rparr> 960 100 = 960"
    "fst (encode_frame test_opus
      \<lparr>enc_Fs = 48000, enc_channels = 1, use_vbr = 1, complexity = 10,
       signal_type = OPUS_SIGNAL_VOICE, bitrate_bps = 0, enc_frames = 0\<rparr>
      (take 960 long_pcm) 960 packet_buffer 100) = 3"
    by (simp_all add: test_opus_def test_encode_reads_def test_encode_frame_def valid_frame_def)
  have decoded: "decode_frame test_opus \<lparr>dec_Fs = 48000, dec_channels = 2, dec_frames = 0\<rparr>
      packet_buffer 100 960 0 =
      (960, replicate 1920 0, \<lparr>dec_Fs = 48000, dec_channels = 2, dec_frames = Suc 0\<rparr>)"
    by (simp add: test_opus_def test_decode_frame_def valid_frame_def)
  show ?thesis
    using enc dec lengths refused encoded decoded
      native_return_is_the_jint_returned [where L = test_opus and w = mono_world
        and p = "0x1000" and pcm = long_pcm and frameSize = 7 and opus = packet_buffer
        and e = "\<lparr>enc_Fs = 48000, enc_channels = 1, use_vbr = 1, complexity = 10,
          signal_type = OPUS_SIGNAL_VOICE, bitrate_bps = 0, enc_frames = 0\<rparr>"
        and q = "0x2000" and packet = packet_buffer and out = stereo_pcm
        and d = "\<lparr>dec_Fs = 48000, dec_channels = 2, dec_frames = 0\<rparr>"]
      native_return_is_the_jint_returned [where L = test_opus and w = mono_world
        and p = "0x1000" and pcm = long_pcm and frameSize = 960 and opus = packet_buffer
        and e = "\<lparr>enc_Fs = 48000, enc_channels = 1, use_vbr = 1, complexity = 10,
          signal_type = OPUS_SIGNAL_VOICE, bitrate_bps = 0, enc_frames = 0\<rparr>"
        and q = "0x2000" and packet = packet_buffer and out = stereo_pcm
        and d = "\<lparr>dec_Fs = 48000, dec_channels = 2, dec_frames = 0\<rparr>"]
      native_return_is_the_jint_returned [where L = test_opus and w = stereo_world
        and p = "0x2000" and pcm = long_pcm and frameSize = 960 and opus = packet_buffer
        and e = "\<lparr>enc_Fs = 48000, enc_channels = 1, use_vbr = 1, complexity = 10,
          signal_type = OPUS_SIGNAL_VOICE, bitrate_bps = 0, enc_frames = 0\<rparr>"
        and q = "0x1000" and packet = packet_buffer and out = stereo_pcm
        and d = "\<lparr>dec_Fs = 48000, dec_channels = 2, dec_frames = 0\<rparr>"]
    by (simp add: encode_result_def decode_result_def)
qed

subsection \<open>C9: sessions do not interfere\<close>



subsection \<open>C10: the capacity of the output array\<close>

text \<open>
  C10: the capacity that \<open>encode\<close> passes to \<^verbatim>\<open>opus_encode\<close> is the length of the
  caller's output array (a Java array is shorter than \<open>2 ^ 31\<close>), so with a libopus that
  keeps within the capacity it is given, a count returned by \<open>encode\<close> is at most the
  length of that array, and the array the caller gets back has the length it had. The
  output array is never what makes an \<open>encode\<close> on a live encoder fault: the call returns
  exactly when the PCM array holds the samples libopus reads.
\<close>

theorem encode_capacity_is_the_array_length:
  assumes "respects_capacity L" and "heap w p = Some (OpusEncoder e)" and "length opus < 2 ^ 31"
  shows "sint (GetArrayLength opus) = int (length opus) \<and>
         (returns (encode L w p pcm frameSize opus) \<longleftrightarrow>
            encode_reads L e frameSize (GetArrayLength opus) \<le> length pcm) \<and>
         (returns (encode L w p pcm frameSize opus) \<longrightarrow>
            calls (after (encode L w p pcm frameSize opus)) =
              calls w @ [Call_opus_encode p pcm frameSize (GetArrayLength opus)] \<and>
            (0 \<le> sint (fst (retval (encode L w p pcm frameSize opus))) \<longrightarrow>
               nat (sint (fst (retval (encode L w p pcm frameSize opus)))) \<le> length opus) \<and>
            length (snd (retval (encode L w p pcm frameSize opus))) = length opus)"
proof -
  have cap: "sint (GetArrayLength opus) = int (length opus)"
    by (rule sint_GetArrayLength [OF assms(3)])
  show ?thesis
  proof (cases "encode_reads L e frameSize (GetArrayLength opus) \<le> length pcm")
    case True
    have "0 \<le> sint (fst (encode_frame L e
          (take (encode_reads L e frameSize (GetArrayLength opus)) pcm)
          frameSize opus (GetArrayLength opus))) \<longrightarrow>
        sint (fst (encode_frame L e
          (take (encode_reads L e frameSize (GetArrayLength opus)) pcm)
          frameSize opus (GetArrayLength opus))) \<le> sint (GetArrayLength opus)"
      using assms(1) by (simp add: respects_capacity_def)
    moreover have "length (take (nat (sint (GetArrayLength opus)))
        (fst (snd (encode_frame L e (take (encode_reads L e frameSize (GetArrayLength opus)) pcm)
           frameSize opus (GetArrayLength opus))))) \<le> length opus"
      by (rule stored_packet_fits)
    ultimately show ?thesis
      using cap True
      by (simp add: encode_on_live_encoder [OF assms(2) True] returns_def calls_logged
            nat_le_iff del: length_take)
  next
    case False
    then have "encode L w p pcm frameSize opus = Fault"
      by (intro encode_reads_past_pcm [OF assms(2)]) simp
    with cap False show ?thesis
      by (simp add: returns_def)
  qed
qed

theorem encode_capacity_is_the_array_length_witness:
  "respects_capacity test_opus \<and>
   heap mono_world 0x1000 = Some (OpusEncoder
      \<lparr>enc_Fs = 48000, enc_channels = 1, use_vbr = 1, complexity = 10,
       signal_type = OPUS_SIGNAL_VOICE, bitrate_bps = 0, enc_frames = 0\<rparr>) \<and>
   length packet_buffer < 2 ^ 31 \<and>
   returns (encode test_opus mono_world 0x1000 long_pcm 960 packet_buffer) \<and>
   calls (after (encode test_opus mono_world 0x1000 long_pcm 960 packet_buffer)) =
     calls mono_world @ [Call_opus_encode 0x1000 long_pcm 960 100] \<and>
   nat (sint (fst (retval (encode test_opus mono_world 0x1000 long_pcm 960 packet_buffer)))) \<le> 100 \<and>
   length (snd (retval (encode test_opus mono_world 0x1000 long_pcm 960 packet_buffer))) = 100"
proof -
  have live: "heap mono_world 0x1000 = Some (OpusEncoder
      \<lparr>enc_Fs = 48000, enc_channels = 1, use_vbr = 1, complexity = 10,
       signal_type = OPUS_SIGNAL_VOICE, bitrate_bps = 0, enc_frames = 0\<rparr>)"
    by (simp add: heap_mono_world)
  have len: "length packet_buffer < 2 ^ 31" "length packet_buffer = 100"
    "GetArrayLength packet_buffer = 100"
    by (simp_all add: packet_buffer_def GetArrayLength_def)
  have ran: "returns (encode test_opus mono_world 0x1000 long_pcm 960 packet_buffer)"
    "0 \<le> sint (fst (retval (encode test_opus mono_world 0x1000 long_pcm 960 packet_buffer)))"
    by (simp_all add: long_pcm_run returns_def)
  show ?thesis
    using live len ran
      encode_capacity_is_the_array_length
        [OF test_opus_respects_capacity live len(1), of long_pcm 960]
    by (simp add: test_opus_respects_capacity)
qed


end
